theory Spec2Isabelle
  imports Complex_Main "HOL-Library.Sublist"
begin

section \<open>Task inference pipeline: values, exceptions, strings\<close>

text \<open>
  The pipeline of \<^verbatim>\<open>app/agents/task_inference.py\<close> works on the values that
  \<^verbatim>\<open>json.loads\<close> returns. They are modelled as a datatype: a number is its rational
  value (the non-finite floats \<^verbatim>\<open>NaN\<close> and \<^verbatim>\<open>Infinity\<close> are outside the model), a
  dict is the association list of its items (keys distinct, as in a parsed dict; lookup
  is \<open>map_of\<close>). Strings are ASCII: \<open>strip\<close> and \<open>lower\<close> are Python's on ASCII text.
\<close>

datatype json =
    JNull
  | JBool bool
  | JNum rat
  | JStr string
  | JArr "json list"
  | JObj "(string \<times> json) list"

text \<open>A Python exception: its class and a short message.\<close>

datatype exn =
    ValueError string
  | TypeError string
  | KeyError string
  | AttributeError string
  | OverflowError string
  | ConnectionError string
  | ServiceError string

text \<open>
  The three messages the stages append to \<^verbatim>\<open>state["errors"]\<close>:
  \<^verbatim>\<open>f"Task extraction failed: {e}"\<close>, \<^verbatim>\<open>f"Failed to create task: {e}"\<close> and
  \<^verbatim>\<open>f"Database commit failed: {e}"\<close>.
\<close>

datatype diag =
    TaskExtractionFailed exn
  | FailedToCreateTask exn
  | DatabaseCommitFailed exn

definition is_space :: "char \<Rightarrow> bool" where
  "is_space c \<longleftrightarrow> c \<in> {CHR '' '', CHR 0x09, CHR 0x0A, CHR 0x0B, CHR 0x0C, CHR 0x0D,
                        CHR 0x1C, CHR 0x1D, CHR 0x1E, CHR 0x1F}"

definition strip :: "string \<Rightarrow> string" where
  "strip s = rev (dropWhile is_space (rev (dropWhile is_space s)))"

definition lower_char :: "char \<Rightarrow> char" where
  "lower_char c =
     (case map_of (zip ''ABCDEFGHIJKLMNOPQRSTUVWXYZ'' ''abcdefghijklmnopqrstuvwxyz'') c of
        None \<Rightarrow> c
      | Some d \<Rightarrow> d)"

definition lower :: "string \<Rightarrow> string" where
  "lower s = map lower_char s"

text \<open>\<^verbatim>\<open>d.get(key, default)\<close>: only a dict has the method.\<close>

fun py_get :: "json \<Rightarrow> string \<Rightarrow> json \<Rightarrow> exn + json" where
  "py_get (JObj kvs) k dflt = Inr (case map_of kvs k of None \<Rightarrow> dflt | Some v \<Rightarrow> v)"
| "py_get _ k dflt = Inl (AttributeError ''get'')"

text \<open>
  The value a Python number has in a comparison with an integer; \<^verbatim>\<open>bool\<close> is a
  subclass of \<^verbatim>\<open>int\<close>. Every other type raises \<^verbatim>\<open>TypeError\<close> there.
\<close>

fun py_number :: "json \<Rightarrow> rat option" where
  "py_number (JNum r) = Some r"
| "py_number (JBool b) = Some (if b then 1 else 0)"
| "py_number _ = None"

definition py_lt :: "json \<Rightarrow> int \<Rightarrow> exn + bool" where
  "py_lt v n = (case py_number v of None \<Rightarrow> Inl (TypeError ''<'') | Some r \<Rightarrow> Inr (r < of_int n))"

definition py_gt :: "json \<Rightarrow> int \<Rightarrow> exn + bool" where
  "py_gt v n = (case py_number v of None \<Rightarrow> Inl (TypeError ''>'') | Some r \<Rightarrow> Inr (r > of_int n))"

fun py_strip :: "json \<Rightarrow> exn + string" where
  "py_strip (JStr s) = Inr (strip s)"
| "py_strip _ = Inl (AttributeError ''strip'')"

text \<open>\<^verbatim>\<open>d[key]\<close> with a string key, and \<^verbatim>\<open>v[:500]\<close>.\<close>

fun py_index :: "json \<Rightarrow> string \<Rightarrow> exn + json" where
  "py_index (JObj kvs) k = (case map_of kvs k of None \<Rightarrow> Inl (KeyError k) | Some v \<Rightarrow> Inr v)"
| "py_index _ k = Inl (TypeError ''subscript'')"

fun py_slice500 :: "json \<Rightarrow> exn + json" where
  "py_slice500 (JStr s) = Inr (JStr (take 500 s))"
| "py_slice500 (JArr xs) = Inr (JArr (take 500 xs))"
| "py_slice500 _ = Inl (TypeError ''slice'')"

text \<open>Truth value of a value in \<^verbatim>\<open>if v:\<close>.\<close>

fun py_truthy :: "json \<Rightarrow> bool" where
  "py_truthy JNull = False"
| "py_truthy (JBool b) = b"
| "py_truthy (JNum r) = (r \<noteq> 0)"
| "py_truthy (JStr s) = (s \<noteq> [])"
| "py_truthy (JArr xs) = (xs \<noteq> [])"
| "py_truthy (JObj kvs) = (kvs \<noteq> [])"

text \<open>
  \<^verbatim>\<open>for task in tasks\<close>: a list gives its elements, a string its characters, a
  dict its keys; nothing else can be iterated.
\<close>

fun py_iter :: "json \<Rightarrow> exn + json list" where
  "py_iter (JArr xs) = Inr xs"
| "py_iter (JStr s) = Inr (map (\<lambda>c. JStr [c]) s)"
| "py_iter (JObj kvs) = Inr (map (\<lambda>kv. JStr (fst kv)) kvs)"
| "py_iter _ = Inl (TypeError ''not iterable'')"

text \<open>\<^verbatim>\<open>[task.get(k, d) for task in tasks]\<close>: the first failing element ends it.\<close>

fun get_each :: "string \<Rightarrow> json \<Rightarrow> json list \<Rightarrow> exn + json list" where
  "get_each k d [] = Inr []"
| "get_each k d (t # ts) =
     (case py_get t k d of
        Inl e \<Rightarrow> Inl e
      | Inr v \<Rightarrow> (case get_each k d ts of Inl e \<Rightarrow> Inl e | Inr vs \<Rightarrow> Inr (v # vs)))"

text \<open>
  \<^verbatim>\<open>s.find(sub, start)\<close> (\<open>-1\<close> when absent) and \<^verbatim>\<open>s[a:b]\<close> for \<open>a \<ge> 0\<close>, where
  a negative \<open>b\<close> counts from the end.
\<close>

fun find_sub :: "string \<Rightarrow> string \<Rightarrow> nat option" where
  "find_sub sub [] = (if sub = [] then Some 0 else None)"
| "find_sub sub (c # cs) =
     (if prefix sub (c # cs) then Some 0 else map_option Suc (find_sub sub cs))"

definition py_find :: "string \<Rightarrow> string \<Rightarrow> nat \<Rightarrow> int" where
  "py_find s sub start =
     (case find_sub sub (drop start s) of None \<Rightarrow> - 1 | Some i \<Rightarrow> int (start + i))"

definition py_slice :: "string \<Rightarrow> nat \<Rightarrow> int \<Rightarrow> string" where
  "py_slice s a b =
     (let n = int (length s);
          b' = (if b < 0 then max 0 (n + b) else min b n)
      in take (nat b' - a) (drop a s))"

text \<open>\<^verbatim>\<open>sub in s\<close> on strings.\<close>

definition py_in :: "string \<Rightarrow> string \<Rightarrow> bool" where
  "py_in sub s \<longleftrightarrow> find_sub sub s \<noteq> None"

text \<open>\<^verbatim>\<open>str(n)\<close> of an integer.\<close>

fun show_nat :: "nat \<Rightarrow> string" where
  "show_nat n =
     (if n < 10 then [''0123456789'' ! n] else show_nat (n div 10) @ [''0123456789'' ! (n mod 10)])"

definition show_int :: "int \<Rightarrow> string" where
  "show_int i = (if i < 0 then CHR ''-'' # show_nat (nat (- i)) else show_nat (nat i))"

section \<open>Dates\<close>

text \<open>
  A \<^verbatim>\<open>datetime\<close> is its proleptic Gregorian ordinal (day 1 is 0001-01-01, day
  3652059 is 9999-12-31, \<^verbatim>\<open>datetime.max\<close>) and its time of day. Adding
  \<^verbatim>\<open>timedelta(days=n)\<close> moves the ordinal; \<^verbatim>\<open>timedelta\<close> itself raises
  \<^verbatim>\<open>OverflowError\<close> beyond 999999999 days, and so does the sum when it leaves the
  range of \<^verbatim>\<open>datetime\<close>.
\<close>

record datetime =
  ordinal :: int
  hour :: nat
  minute :: nat
  second :: nat
  microsecond :: nat

definition max_ordinal :: int where
  "max_ordinal = 3652059"

definition add_days :: "datetime \<Rightarrow> int \<Rightarrow> exn + datetime" where
  "add_days d n =
     (if \<bar>n\<bar> > 999999999 then Inl (OverflowError ''timedelta'')
      else if ordinal d + n < 1 \<or> ordinal d + n > max_ordinal then Inl (OverflowError ''date value out of range'')
      else Inr (d\<lparr>ordinal := ordinal d + n\<rparr>))"

section \<open>Pipeline state\<close>

text \<open>
  \<^verbatim>\<open>app/models/task.py\<close>: the columns the pipeline sets. Python does not check
  column types at construction, so a field holds whatever value the candidate had.
  The primary key and the timestamps that the store fills in are left out: no stage
  reads them.
\<close>

record Task =
  title :: json
  description :: json
  context_note :: json
  status :: string
  priority :: json
  confidence_score :: json
  source_type :: string
  source_id :: string
  due_date :: "datetime option"
  inferred_at :: datetime

text \<open>
  The state of the graph. \<open>extracted_tasks\<close> is the Python value the Extract stage
  assigns: a list, or whatever else the reply put under \<^verbatim>\<open>"tasks"\<close>.
\<close>

record TaskInferenceState =
  content :: string
  source :: string
  message_id :: int
  is_actionable :: bool
  extracted_tasks :: json
  validated_tasks :: "json list"
  confidence_scores :: "json list"
  created_tasks :: "Task list"
  errors :: "diag list"

section \<open>Settings and collaborators\<close>

text \<open>
  \<^verbatim>\<open>app/config.py\<close>: the settings the pipeline reads.
\<close>

record Settings =
  USE_LOCAL_LLM_FOR_CLASSIFICATION :: bool
  MIN_CONFIDENCE_THRESHOLD :: int
  ANTHROPIC_API_KEY :: string

text \<open>
  What the run gets from outside the repository, as parameters: \<open>ollama\<close> is the
  outcome of \<^verbatim>\<open>ollama.generate\<close> on a prompt, \<open>anthropic\<close> the outcome of the
  \<open>k\<close>-th call of \<^verbatim>\<open>messages.create\<close> on a user prompt, \<open>json_loads\<close> is
  \<^verbatim>\<open>json.loads\<close> (\<open>None\<close> for \<^verbatim>\<open>JSONDecodeError\<close>), \<open>fromisoformat\<close> is
  \<^verbatim>\<open>datetime.fromisoformat\<close> on a string (\<open>None\<close> for \<^verbatim>\<open>ValueError\<close>), \<open>now\<close>,
  \<open>utcnow\<close> and \<open>today\<close> are the clock readings of the run, and the last three say
  whether \<^verbatim>\<open>db.add\<close>, \<^verbatim>\<open>db.commit\<close> (on the pending records) and
  \<^verbatim>\<open>db.refresh\<close> raise. \<^verbatim>\<open>db.rollback\<close> and the logger do not raise.
\<close>

record World =
  ollama :: "string \<Rightarrow> exn + string"
  anthropic :: "nat \<Rightarrow> string \<Rightarrow> exn + string"
  json_loads :: "string \<Rightarrow> json option"
  fromisoformat :: "string \<Rightarrow> datetime option"
  now :: datetime
  utcnow :: datetime
  today :: string
  add_raises :: "Task \<Rightarrow> exn option"
  commit_raises :: "Task list \<Rightarrow> exn option"
  refresh_raises :: "Task \<Rightarrow> exn option"

text \<open>The session: records added and not yet committed, and the rows of the table.\<close>

record Session =
  pending :: "Task list"
  stored :: "Task list"

section \<open>The clients of llm_clients.py\<close>

text \<open>
  \<^verbatim>\<open>OllamaClient.generate\<close> turns every failure into a \<^verbatim>\<open>ConnectionError\<close>;
  \<^verbatim>\<open>OllamaClient.is_actionable\<close> catches it and answers \<^verbatim>\<open>True\<close>.
\<close>

definition OllamaClient_generate :: "World \<Rightarrow> string \<Rightarrow> exn + string" where
  "OllamaClient_generate w prompt =
     (case ollama w prompt of
        Inl e \<Rightarrow> Inl (ConnectionError ''Failed to connect to Ollama'')
      | Inr result \<Rightarrow> Inr result)"

definition classify_prompt :: "string \<Rightarrow> string" where
  "classify_prompt message =
     ''Message: '' @ take 500 message @ [CHR 0x0A, CHR 0x0A] @ ''Is this actionable?''"

definition OllamaClient_is_actionable :: "World \<Rightarrow> string \<Rightarrow> bool" where
  "OllamaClient_is_actionable w message =
     (case OllamaClient_generate w (classify_prompt message) of
        Inl e \<Rightarrow> True
      | Inr response \<Rightarrow> py_in ''yes'' (take 10 (lower response)))"

text \<open>
  \<^verbatim>\<open>ClaudeClient.generate\<close> under \<^verbatim>\<open>@retry(stop_after_attempt(3), reraise=True)\<close>:
  up to three attempts, the last exception re-raised. Without an API key every attempt
  raises \<^verbatim>\<open>ValueError\<close>.
\<close>

definition ClaudeClient_attempt :: "Settings \<Rightarrow> World \<Rightarrow> nat \<Rightarrow> string \<Rightarrow> exn + string" where
  "ClaudeClient_attempt cfg w k user_prompt =
     (if ANTHROPIC_API_KEY cfg = [] then Inl (ValueError ''Claude client not initialized'')
      else anthropic w k user_prompt)"

definition ClaudeClient_generate :: "Settings \<Rightarrow> World \<Rightarrow> string \<Rightarrow> exn + string" where
  "ClaudeClient_generate cfg w user_prompt =
     (case ClaudeClient_attempt cfg w 0 user_prompt of
        Inr reply \<Rightarrow> Inr reply
      | Inl e0 \<Rightarrow>
        (case ClaudeClient_attempt cfg w 1 user_prompt of
           Inr reply \<Rightarrow> Inr reply
         | Inl e1 \<Rightarrow> ClaudeClient_attempt cfg w 2 user_prompt))"

text \<open>The code-fence handling of \<^verbatim>\<open>generate_json\<close>, before \<^verbatim>\<open>json.loads\<close>.\<close>

definition normalise_response :: "string \<Rightarrow> string" where
  "normalise_response response_text =
     (if py_in ''```json'' response_text then
        (let json_start = nat (py_find response_text ''```json'' 0) + 7;
             json_end = py_find response_text ''```'' json_start
         in strip (py_slice response_text json_start json_end))
      else if py_in ''```'' response_text then
        (let json_start = nat (py_find response_text ''```'' 0) + 3;
             json_end = py_find response_text ''```'' json_start
         in strip (py_slice response_text json_start json_end))
      else response_text)"

definition ClaudeClient_generate_json :: "Settings \<Rightarrow> World \<Rightarrow> string \<Rightarrow> exn + json" where
  "ClaudeClient_generate_json cfg w user_prompt =
     (case ClaudeClient_generate cfg w user_prompt of
        Inl e \<Rightarrow> Inl e
      | Inr response_text \<Rightarrow>
        (case json_loads w (normalise_response response_text) of
           None \<Rightarrow> Inl (ValueError ''Claude did not return valid JSON'')
         | Some v \<Rightarrow> Inr v))"

section \<open>Node 1: analyze_message\<close>

text \<open>
  The stage takes the classification call as a parameter \<open>classify\<close>, so that a call
  that raises is an input; the pipeline passes \<open>OllamaClient_is_actionable\<close>.
\<close>

definition analyze_message ::
  "Settings \<Rightarrow> (string \<Rightarrow> exn + bool) \<Rightarrow> TaskInferenceState \<Rightarrow> TaskInferenceState" where
  "analyze_message cfg classify state =
     (if USE_LOCAL_LLM_FOR_CLASSIFICATION cfg then
        (case classify (content state) of
           Inr b \<Rightarrow> state\<lparr>is_actionable := b\<rparr>
         | Inl e \<Rightarrow> state\<lparr>is_actionable := True\<rparr>)
      else state\<lparr>is_actionable := True\<rparr>)"

section \<open>Node 2: extract_tasks\<close>

definition user_prompt_of :: "string \<Rightarrow> string \<Rightarrow> string" where
  "user_prompt_of text date =
     ''Analyze this text and extract all actionable tasks:'' @ [CHR 0x0A, CHR 0x0A] @ text @
     [CHR 0x0A, CHR 0x0A] @ ''Today's date: '' @ date @ [CHR 0x0A, CHR 0x0A] @
     ''Return JSON array of tasks:''"

text \<open>What the \<^verbatim>\<open>if isinstance ... elif ... else\<close> chain binds \<^verbatim>\<open>tasks\<close> to.\<close>

fun tasks_of_response :: "json \<Rightarrow> json" where
  "tasks_of_response (JArr xs) = JArr xs"
| "tasks_of_response (JObj kvs) =
     (case map_of kvs ''tasks'' of Some v \<Rightarrow> v | None \<Rightarrow> JArr [])"
| "tasks_of_response _ = JArr []"

text \<open>The \<^verbatim>\<open>except\<close> branch of the stage.\<close>

definition extract_failed :: "TaskInferenceState \<Rightarrow> exn \<Rightarrow> TaskInferenceState" where
  "extract_failed state e =
     state\<lparr>extracted_tasks := JArr [], errors := errors state @ [TaskExtractionFailed e]\<rparr>"

text \<open>
  The stage returns the new state and the user prompts it sent to
  \<^verbatim>\<open>claude.generate_json\<close>. The value \<^verbatim>\<open>tasks\<close> is assigned to
  \<open>extracted_tasks\<close> as it is; the comprehension over it then raises unless every
  element is a dict, and the \<^verbatim>\<open>except\<close> branch resets the field to the empty list.
\<close>

definition extract_tasks ::
  "Settings \<Rightarrow> World \<Rightarrow> TaskInferenceState \<Rightarrow> TaskInferenceState \<times> string list" where
  "extract_tasks cfg w state =
     (if \<not> is_actionable state then (state\<lparr>extracted_tasks := JArr []\<rparr>, [])
      else
        (let user_prompt = user_prompt_of (content state) (today w);
             state' =
               (case ClaudeClient_generate_json cfg w user_prompt of
                  Inl e \<Rightarrow> extract_failed state e
                | Inr response_json \<Rightarrow>
                  (let tasks = tasks_of_response response_json in
                   case py_iter tasks of
                     Inl e \<Rightarrow> extract_failed state e
                   | Inr elements \<Rightarrow>
                     (case get_each ''confidence'' (JNum 50) elements of
                        Inl e \<Rightarrow> extract_failed state e
                      | Inr scores \<Rightarrow>
                          state\<lparr>extracted_tasks := tasks, confidence_scores := scores\<rparr>)))
         in (state', [user_prompt])))"

section \<open>Node 3: validate_tasks\<close>

text \<open>
  The body of the \<^verbatim>\<open>for task_data in state["extracted_tasks"]\<close> loop, with the two
  locals \<^verbatim>\<open>validated\<close> and \<^verbatim>\<open>seen_titles\<close> as accumulators. Nothing in the stage
  catches an exception, so the first one ends the stage. The stage takes
  \<^verbatim>\<open>len(state["extracted_tasks"])\<close> for its log line and then iterates: both need a
  list, a string or a dict.
\<close>

fun validate_loop :: "int \<Rightarrow> json list \<Rightarrow> json list \<Rightarrow> string set \<Rightarrow> exn + json list" where
  "validate_loop thr [] validated seen_titles = Inr validated"
| "validate_loop thr (task_data # rest) validated seen_titles =
     (case py_get task_data ''confidence'' (JNum 0) of
        Inl e \<Rightarrow> Inl e
      | Inr confidence \<Rightarrow>
        (case py_lt confidence thr of
           Inl e \<Rightarrow> Inl e
         | Inr True \<Rightarrow> validate_loop thr rest validated seen_titles
         | Inr False \<Rightarrow>
           (case py_get task_data ''title'' (JStr []) of
              Inl e \<Rightarrow> Inl e
            | Inr t \<Rightarrow>
              (case py_strip t of
                 Inl e \<Rightarrow> Inl e
               | Inr stripped \<Rightarrow>
                   if stripped = [] then validate_loop thr rest validated seen_titles
                   else if lower stripped \<in> seen_titles
                     then validate_loop thr rest validated seen_titles
                   else validate_loop thr rest (validated @ [task_data])
                          (insert (lower stripped) seen_titles)))))"

definition validate_tasks :: "Settings \<Rightarrow> TaskInferenceState \<Rightarrow> exn + TaskInferenceState" where
  "validate_tasks cfg state =
     (case py_iter (extracted_tasks state) of
        Inl e \<Rightarrow> Inl e
      | Inr candidates \<Rightarrow>
        (case validate_loop (MIN_CONFIDENCE_THRESHOLD cfg) candidates [] {} of
           Inl e \<Rightarrow> Inl e
         | Inr validated \<Rightarrow> Inr (state\<lparr>validated_tasks := validated\<rparr>)))"

section \<open>The date helper _parse_relative_date\<close>

definition is_digit :: "char \<Rightarrow> bool" where
  "is_digit c \<longleftrightarrow> c \<in> set ''0123456789''"

definition digit_value :: "char \<Rightarrow> nat" where
  "digit_value c = (case find_sub [c] ''0123456789'' of None \<Rightarrow> 0 | Some i \<Rightarrow> i)"

text \<open>The number a string of decimal digits denotes; \<open>py_int\<close> below is \<^verbatim>\<open>int\<close>.\<close>

definition int_of_digits :: "string \<Rightarrow> nat" where
  "int_of_digits ds = foldl (\<lambda>a c. 10 * a + digit_value c) 0 ds"

text \<open>
  \<^verbatim>\<open>int(ds)\<close> on a string of decimal digits: Python refuses a string of more than
  4300 digits (leading zeros counted) with \<^verbatim>\<open>ValueError\<close>.
\<close>

definition py_int :: "string \<Rightarrow> exn + nat" where
  "py_int ds =
     (if length ds > 4300 then Inl (ValueError ''Exceeds the limit (4300 digits)'')
      else Inr (int_of_digits ds))"

text \<open>
  \<^verbatim>\<open>re.search(r"in (\d+) days?", s)\<close>: a match at the start of \<open>s\<close> is \<^verbatim>\<open>"in "\<close>, a
  run of digits, \<^verbatim>\<open>" day"\<close> (the final \<^verbatim>\<open>s?\<close> always matches). The run is the
  longest one, since the character after the group must be a space. \<open>search_in_days\<close>
  gives group 1 of the leftmost match.
\<close>

definition match_in_days :: "string \<Rightarrow> string option" where
  "match_in_days s =
     (if prefix ''in '' s then
        (let r = drop 3 s; ds = takeWhile is_digit r
         in if ds \<noteq> [] \<and> prefix '' day'' (dropWhile is_digit r)
            then Some ds else None)
      else None)"

fun search_in_days :: "string \<Rightarrow> string option" where
  "search_in_days [] = None"
| "search_in_days (c # cs) =
     (case match_in_days (c # cs) of Some ds \<Rightarrow> Some ds | None \<Rightarrow> search_in_days cs)"

text \<open>
  \<^verbatim>\<open>_parse_relative_date(date_str)\<close> at the clock reading \<open>t\<close>. A value that is not
  a string has no \<^verbatim>\<open>lower\<close>.
\<close>

fun parse_relative_date :: "datetime \<Rightarrow> json \<Rightarrow> exn + datetime" where
  "parse_relative_date t (JStr date_str) =
     (let date_str_lower = strip (lower date_str) in
      if py_in ''tomorrow'' date_str_lower then add_days t 1
      else if py_in ''next week'' date_str_lower then add_days t 7
      else if py_in ''eod'' date_str_lower \<or> py_in ''end of day'' date_str_lower
        then Inr (t\<lparr>hour := 17, minute := 0, second := 0, microsecond := 0\<rparr>)
      else if py_in ''next month'' date_str_lower then add_days t 30
      else (case search_in_days date_str_lower of
              Some group1 \<Rightarrow>
                (case py_int group1 of
                   Inl e \<Rightarrow> Inl e
                 | Inr days \<Rightarrow> add_days t (int days))
            | None \<Rightarrow> add_days t 1))"
| "parse_relative_date t _ = Inl (AttributeError ''lower'')"

section \<open>Node 4: generate_tasks\<close>

text \<open>The validators of \<^verbatim>\<open>app/models/task.py\<close>.\<close>

definition validate_status :: "string \<Rightarrow> exn + string" where
  "validate_status v =
     (if v \<in> set [''todo'', ''in_progress'', ''done''] then Inr v
      else Inl (ValueError ''Invalid status''))"

definition validate_confidence_score :: "json \<Rightarrow> exn + json" where
  "validate_confidence_score v =
     (case py_lt v 0 of
        Inl e \<Rightarrow> Inl e
      | Inr True \<Rightarrow> Inl (ValueError ''Confidence score must be between 0 and 100'')
      | Inr False \<Rightarrow>
        (case py_gt v 100 of
           Inl e \<Rightarrow> Inl e
         | Inr True \<Rightarrow> Inl (ValueError ''Confidence score must be between 0 and 100'')
         | Inr False \<Rightarrow> Inr v))"

definition validate_priority :: "json \<Rightarrow> exn + json" where
  "validate_priority v =
     (if v = JNull then Inr v
      else
        (case py_lt v 1 of
           Inl e \<Rightarrow> Inl e
         | Inr True \<Rightarrow> Inl (ValueError ''Priority must be between 1 and 5'')
         | Inr False \<Rightarrow>
           (case py_gt v 5 of
              Inl e \<Rightarrow> Inl e
            | Inr True \<Rightarrow> Inl (ValueError ''Priority must be between 1 and 5'')
            | Inr False \<Rightarrow> Inr v)))"

text \<open>
  The due date of a candidate: \<^verbatim>\<open>None\<close> when the field is falsy, else
  \<^verbatim>\<open>fromisoformat\<close>, and on its \<^verbatim>\<open>ValueError\<close> or (for a value that is not a string)
  \<^verbatim>\<open>TypeError\<close> the relative parser.
\<close>

definition resolve_due_date :: "World \<Rightarrow> json \<Rightarrow> exn + datetime option" where
  "resolve_due_date w task_data =
     (case py_get task_data ''due_date'' JNull of
        Inl e \<Rightarrow> Inl e
      | Inr v \<Rightarrow>
          if py_truthy v then
            (case (case v of JStr s \<Rightarrow> fromisoformat w s | _ \<Rightarrow> None) of
               Some d \<Rightarrow> Inr (Some d)
             | None \<Rightarrow>
               (case parse_relative_date (now w) v of Inl e \<Rightarrow> Inl e | Inr d \<Rightarrow> Inr (Some d)))
          else Inr None)"

text \<open>
  The body of the inner \<^verbatim>\<open>try\<close> up to the constructor \<^verbatim>\<open>Task(...)\<close>. The arguments
  are evaluated first; the constructor then sets the attributes in keyword order, which
  runs the validators of status, priority and confidence score in this order.
\<close>

definition make_task :: "World \<Rightarrow> TaskInferenceState \<Rightarrow> json \<Rightarrow> exn + Task" where
  "make_task w state task_data =
     (case resolve_due_date w task_data of
        Inl e \<Rightarrow> Inl e
      | Inr due \<Rightarrow>
     (case py_index task_data ''title'' of
        Inl e \<Rightarrow> Inl e
      | Inr t \<Rightarrow>
     (case py_slice500 t of
        Inl e \<Rightarrow> Inl e
      | Inr t500 \<Rightarrow>
     (case py_get task_data ''description'' JNull of
        Inl e \<Rightarrow> Inl e
      | Inr descr \<Rightarrow>
     (case py_get task_data ''context'' JNull of
        Inl e \<Rightarrow> Inl e
      | Inr ctx \<Rightarrow>
     (case py_get task_data ''priority'' (JNum 3) of
        Inl e \<Rightarrow> Inl e
      | Inr prio \<Rightarrow>
     (case py_get task_data ''confidence'' (JNum 50) of
        Inl e \<Rightarrow> Inl e
      | Inr conf \<Rightarrow>
     (case validate_status ''todo'' of
        Inl e \<Rightarrow> Inl e
      | Inr st \<Rightarrow>
     (case validate_priority prio of
        Inl e \<Rightarrow> Inl e
      | Inr prio' \<Rightarrow>
     (case validate_confidence_score conf of
        Inl e \<Rightarrow> Inl e
      | Inr conf' \<Rightarrow>
          Inr \<lparr>title = t500, description = descr, context_note = ctx, status = st,
               priority = prio', confidence_score = conf', source_type = source state,
               source_id = show_int (message_id state), due_date = due,
               inferred_at = utcnow w\<rparr>))))))))))"

text \<open>
  One candidate of the \<^verbatim>\<open>for task_data in state["validated_tasks"]\<close> loop: the record
  that was added, or the exception the inner \<^verbatim>\<open>except\<close> caught.
\<close>

definition stage_one :: "World \<Rightarrow> TaskInferenceState \<Rightarrow> json \<Rightarrow> exn + Task" where
  "stage_one w state task_data =
     (case make_task w state task_data of
        Inl e \<Rightarrow> Inl e
      | Inr task \<Rightarrow> (case add_raises w task of Some e \<Rightarrow> Inl e | None \<Rightarrow> Inr task))"

text \<open>
  The loop, with the local \<^verbatim>\<open>created_tasks\<close>, the \<^verbatim>\<open>errors\<close> field of the state and
  the session as accumulators.
\<close>

fun stage_loop ::
  "World \<Rightarrow> TaskInferenceState \<Rightarrow> json list \<Rightarrow> Task list \<Rightarrow> diag list \<Rightarrow> Session \<Rightarrow>
   Task list \<times> diag list \<times> Session" where
  "stage_loop w state [] created errs db = (created, errs, db)"
| "stage_loop w state (task_data # rest) created errs db =
     (case stage_one w state task_data of
        Inl e \<Rightarrow> stage_loop w state rest created (errs @ [FailedToCreateTask e]) db
      | Inr task \<Rightarrow>
          stage_loop w state rest (created @ [task]) errs (db\<lparr>pending := pending db @ [task]\<rparr>))"

fun first_raise :: "('a \<Rightarrow> exn option) \<Rightarrow> 'a list \<Rightarrow> exn option" where
  "first_raise f [] = None"
| "first_raise f (x # xs) = (case f x of Some e \<Rightarrow> Some e | None \<Rightarrow> first_raise f xs)"

definition rollback :: "Session \<Rightarrow> Session" where
  "rollback db = db\<lparr>pending := []\<rparr>"

text \<open>
  \<^verbatim>\<open>db.commit()\<close> followed by the refreshes, inside one \<^verbatim>\<open>try\<close>: the session after
  it and the exception, if one was raised.
\<close>

definition commit_and_refresh :: "World \<Rightarrow> Task list \<Rightarrow> Session \<Rightarrow> Session \<times> exn option" where
  "commit_and_refresh w created db =
     (case commit_raises w (pending db) of
        Some e \<Rightarrow> (db, Some e)
      | None \<Rightarrow>
          (db\<lparr>stored := stored db @ pending db, pending := []\<rparr>,
           first_raise (refresh_raises w) created))"

definition generate_tasks ::
  "World \<Rightarrow> TaskInferenceState \<Rightarrow> Session \<Rightarrow> TaskInferenceState \<times> Session" where
  "generate_tasks w state db =
     (case stage_loop w state (validated_tasks state) [] (errors state) db of
        (created, errs, db1) \<Rightarrow>
          (case commit_and_refresh w created db1 of
             (db2, None) \<Rightarrow> (state\<lparr>created_tasks := created, errors := errs\<rparr>, db2)
           | (db2, Some e) \<Rightarrow>
               (state\<lparr>created_tasks := [], errors := errs @ [DatabaseCommitFailed e]\<rparr>,
                rollback db2)))"

section \<open>The graph and infer_tasks_from_text\<close>

definition initial_state :: "string \<Rightarrow> string \<Rightarrow> int \<Rightarrow> TaskInferenceState" where
  "initial_state text src mid =
     \<lparr>content = text, source = src, message_id = mid, is_actionable = False,
      extracted_tasks = JArr [], validated_tasks = [], confidence_scores = [],
      created_tasks = [], errors = []\<rparr>"

text \<open>
  The four nodes in sequence. The result is the final state, the session and the prompts
  sent to the extraction client, or the exception that left the graph.
\<close>

definition run_graph ::
  "Settings \<Rightarrow> World \<Rightarrow> TaskInferenceState \<Rightarrow> Session \<Rightarrow>
   exn + (TaskInferenceState \<times> Session \<times> string list)" where
  "run_graph cfg w state0 db =
     (let state1 = analyze_message cfg (\<lambda>m. Inr (OllamaClient_is_actionable w m)) state0 in
      case extract_tasks cfg w state1 of
        (state2, prompts) \<Rightarrow>
          (case validate_tasks cfg state2 of
             Inl e \<Rightarrow> Inl e
           | Inr state3 \<Rightarrow>
               (case generate_tasks w state3 db of
                  (state4, db') \<Rightarrow> Inr (state4, db', prompts))))"

definition infer_tasks_from_text ::
  "Settings \<Rightarrow> World \<Rightarrow> string \<Rightarrow> string \<Rightarrow> int \<Rightarrow> Session \<Rightarrow> exn + Task list" where
  "infer_tasks_from_text cfg w text src mid db =
     (case run_graph cfg w (initial_state text src mid) db of
        Inl e \<Rightarrow> Inl e
      | Inr (final_state, db', prompts) \<Rightarrow> Inr (created_tasks final_state))"

section \<open>The validator as the specification words it\<close>

text \<open>
  A candidate as the data model has it: an object whose \<open>confidence\<close>, when present, is
  a number and whose \<open>title\<close>, when present, is a string.
\<close>

definition well_typed :: "json \<Rightarrow> bool" where
  "well_typed c =
     (case c of
        JObj kvs \<Rightarrow>
          (case map_of kvs ''confidence'' of None \<Rightarrow> True | Some v \<Rightarrow> py_number v \<noteq> None) \<and>
          (case map_of kvs ''title'' of None \<Rightarrow> True | Some (JStr s) \<Rightarrow> True | Some _ \<Rightarrow> False)
      | _ \<Rightarrow> False)"

text \<open>The confidence of a candidate, 0 when absent, and its trimmed title.\<close>

definition confidence_of :: "json \<Rightarrow> rat" where
  "confidence_of c =
     (case c of
        JObj kvs \<Rightarrow>
          (case map_of kvs ''confidence'' of
             None \<Rightarrow> 0
           | Some v \<Rightarrow> (case py_number v of None \<Rightarrow> 0 | Some r \<Rightarrow> r))
      | _ \<Rightarrow> 0)"

definition trimmed_title :: "json \<Rightarrow> string" where
  "trimmed_title c =
     (case c of
        JObj kvs \<Rightarrow> (case map_of kvs ''title'' of Some (JStr s) \<Rightarrow> strip s | _ \<Rightarrow> [])
      | _ \<Rightarrow> [])"

definition passes :: "int \<Rightarrow> json \<Rightarrow> bool" where
  "passes thr c \<longleftrightarrow> of_int thr \<le> confidence_of c \<and> trimmed_title c \<noteq> []"

definition title_key :: "json \<Rightarrow> string" where
  "title_key c = lower (trimmed_title c)"


text \<open>The loop without its exceptions, for candidates that are well typed.\<close>

fun vfilter :: "int \<Rightarrow> string set \<Rightarrow> json list \<Rightarrow> json list" where
  "vfilter thr seen [] = []"
| "vfilter thr seen (c # cs) =
     (if passes thr c \<and> title_key c \<notin> seen
      then c # vfilter thr (insert (title_key c) seen) cs
      else vfilter thr seen cs)"

section \<open>Example inputs\<close>

definition send_report_1 :: json where
  "send_report_1 = JObj [(''title'', JStr ''Send report''), (''confidence'', JNum 90)]"


definition default_settings :: Settings where
  "default_settings =
     \<lparr>USE_LOCAL_LLM_FOR_CLASSIFICATION = True, MIN_CONFIDENCE_THRESHOLD = 70,
      ANTHROPIC_API_KEY = ''key''\<rparr>"

definition example_state :: TaskInferenceState where
  "example_state = initial_state ''Please send the report'' ''manual_text'' 1"

definition example_now :: datetime where
  "example_now = \<lparr>ordinal = 739565, hour = 9, minute = 30, second = 15, microsecond = 250\<rparr>"

text \<open>
  A world in which the classifier is down, the extraction service answers with an empty
  array, and the store accepts everything. Day 739565 is 2025-11-10.
\<close>

definition example_world :: World where
  "example_world =
     \<lparr>ollama = (\<lambda>p. Inl (ServiceError ''connection refused'')),
      anthropic = (\<lambda>k p. Inr ''[]''),
      json_loads = (\<lambda>s. if s = ''[]'' then Some (JArr []) else None),
      fromisoformat = (\<lambda>s. None),
      now = example_now,
      utcnow = example_now\<lparr>hour := 8\<rparr>,
      today = ''2025-11-10'',
      add_raises = (\<lambda>t. None),
      commit_raises = (\<lambda>ts. None),
      refresh_raises = (\<lambda>t. None)\<rparr>"

definition failing_classifier :: "string \<Rightarrow> exn + bool" where
  "failing_classifier m = Inl (ConnectionError ''Failed to connect to Ollama'')"

definition no_classification :: Settings where
  "no_classification = default_settings\<lparr>USE_LOCAL_LLM_FOR_CLASSIFICATION := False\<rparr>"

section \<open>Outcomes of a batch\<close>

text \<open>Of a list of outcomes, the results in order and the exceptions in order.\<close>

fun successes :: "('e + 'a) list \<Rightarrow> 'a list" where
  "successes [] = []"
| "successes (Inl e # rs) = successes rs"
| "successes (Inr a # rs) = a # successes rs"

fun failures :: "('e + 'a) list \<Rightarrow> 'e list" where
  "failures [] = []"
| "failures (Inl e # rs) = e # failures rs"
| "failures (Inr a # rs) = failures rs"

definition review_pr :: json where
  "review_pr = JObj [(''title'', JStr ''Review PR''), (''confidence'', JNum 90), (''priority'', JNum 2)]"

definition out_of_range :: json where
  "out_of_range = JObj [(''title'', JStr ''Call Bob''), (''confidence'', JNum 150)]"

definition empty_session :: Session where
  "empty_session = \<lparr>pending = [], stored = []\<rparr>"

definition commit_fails_world :: World where
  "commit_fails_world = example_world\<lparr>commit_raises := (\<lambda>ts. Some (ServiceError ''database is locked''))\<rparr>"

definition task_of :: "string \<Rightarrow> rat \<Rightarrow> rat \<Rightarrow> Task" where
  "task_of t p c =
     \<lparr>title = JStr t, description = JNull, context_note = JNull, status = ''todo'',
      priority = JNum p, confidence_score = JNum c, source_type = ''manual_text'',
      source_id = ''1'', due_date = None, inferred_at = example_now\<lparr>hour := 8\<rparr>\<rparr>"

definition one_bad_one_good :: TaskInferenceState where
  "one_bad_one_good = example_state\<lparr>validated_tasks := [out_of_range, review_pr]\<rparr>"

definition two_good :: TaskInferenceState where
  "two_good = example_state\<lparr>validated_tasks := [send_report_1, review_pr]\<rparr>"

text \<open>Two titles of 501 characters that differ in the last one only.\<close>

definition long_title_b :: string where
  "long_title_b = replicate 500 CHR ''a'' @ ''b''"

definition long_title_c :: string where
  "long_title_c = replicate 500 CHR ''a'' @ ''c''"

definition titled :: "string \<Rightarrow> json" where
  "titled t = JObj [(''title'', JStr t), (''confidence'', JNum 90)]"

definition zero_threshold :: Settings where
  "zero_threshold = default_settings\<lparr>MIN_CONFIDENCE_THRESHOLD := 0\<rparr>"

definition no_confidence :: json where
  "no_confidence = JObj [(''title'', JStr ''Call Bob'')]"

definition null_title :: json where
  "null_title = JObj [(''title'', JNull), (''confidence'', JNum 90)]"

definition dq :: char where
  "dq = CHR 0x22"

text \<open>The reply \<^verbatim>\<open>[{"title": null, "confidence": 90}]\<close> and a world that gives it.\<close>

definition null_title_reply :: string where
  "null_title_reply =
     ''[{'' @ [dq] @ ''title'' @ [dq] @ '': null, '' @ [dq] @ ''confidence'' @ [dq] @ '': 90}]''"

definition null_title_world :: World where
  "null_title_world =
     example_world
       \<lparr>anthropic := (\<lambda>k p. Inr null_title_reply),
        json_loads := (\<lambda>s. if s = null_title_reply then Some (JArr [null_title]) else None)\<rparr>"

section \<open>The date resolver as the specification words it\<close>

definition plus_days :: "datetime \<Rightarrow> int \<Rightarrow> datetime" where
  "plus_days t n = t\<lparr>ordinal := ordinal t + n\<rparr>"

text \<open>
  Substring matching on the trimmed lower-case expression, in the order of precedence:
  tomorrow, next week, end of day, next month, in N days, and one day as the default.
\<close>

definition relative_date :: "datetime \<Rightarrow> string \<Rightarrow> datetime" where
  "relative_date t s =
     (let d = strip (lower s) in
      if sublist ''tomorrow'' d then plus_days t 1
      else if sublist ''next week'' d then plus_days t 7
      else if sublist ''eod'' d \<or> sublist ''end of day'' d
        then t\<lparr>hour := 17, minute := 0, second := 0, microsecond := 0\<rparr>
      else if sublist ''next month'' d then plus_days t 30
      else (case search_in_days d of
              Some ds \<Rightarrow> plus_days t (int (int_of_digits ds))
            | None \<Rightarrow> plus_days t 1))"

definition with_due_date :: "string \<Rightarrow> json" where
  "with_due_date s =
     JObj [(''title'', JStr ''Renew lease''), (''confidence'', JNum 90), (''due_date'', JStr s)]"

section \<open>Shapes of an extraction payload\<close>

text \<open>
  The shapes the specification recognises: a bare list, or an object with a \<open>tasks\<close>
  list.
\<close>

fun recognised :: "json \<Rightarrow> bool" where
  "recognised (JArr xs) = True"
| "recognised (JObj kvs) = (case map_of kvs ''tasks'' of Some (JArr xs) \<Rightarrow> True | _ \<Rightarrow> False)"
| "recognised _ = False"

definition actionable_state :: TaskInferenceState where
  "actionable_state = example_state\<lparr>is_actionable := True\<rparr>"

text \<open>The reply \<^verbatim>\<open>{"message": "no tasks"}\<close> and a world that gives it.\<close>

definition no_tasks_reply :: string where
  "no_tasks_reply = ''{'' @ [dq] @ ''message'' @ [dq] @ '': '' @ [dq] @ ''no tasks'' @ [dq] @ ''}''"

definition no_tasks_payload :: json where
  "no_tasks_payload = JObj [(''message'', JStr ''no tasks'')]"

definition no_tasks_world :: World where
  "no_tasks_world =
     example_world
       \<lparr>anthropic := (\<lambda>k p. Inr no_tasks_reply),
        json_loads := (\<lambda>s. if s = no_tasks_reply then Some no_tasks_payload else None)\<rparr>"

text \<open>A world whose extraction service answers in prose.\<close>

definition prose_world :: World where
  "prose_world =
     example_world
       \<lparr>anthropic := (\<lambda>k p. Inr ''I found no tasks.''), json_loads := (\<lambda>s. None)\<rparr>"

text \<open>The expression \<^verbatim>\<open>"in 11...1 days"\<close> with 4301 digits.\<close>

definition many_digits :: string where
  "many_digits = ''in '' @ replicate 4301 CHR ''1'' @ '' days''"

section \<open>Properties of the validator\<close>

lemma strip_Nil [simp]: "strip [] = []"
  by (simp add: strip_def)

lemma validate_step:
  assumes "well_typed c"
  shows "validate_loop thr (c # cs) validated seen =
     (if passes thr c \<and> title_key c \<notin> seen
      then validate_loop thr cs (validated @ [c]) (insert (title_key c) seen)
      else validate_loop thr cs validated seen)"
  using assms
  by (auto simp: well_typed_def passes_def title_key_def confidence_of_def trimmed_title_def
      py_lt_def split: json.splits option.splits bool.splits)

lemma validate_loop_vfilter:
  "\<forall>c\<in>set cs. well_typed c \<Longrightarrow>
   validate_loop thr cs validated seen = Inr (validated @ vfilter thr seen cs)"
proof (induction cs arbitrary: validated seen)
  case Nil
  then show ?case by simp
next
  case (Cons c cs)
  then have "well_typed c" by simp
  from validate_step[OF this] Cons show ?case by simp
qed








section \<open>Properties of Analyze and Extract\<close>

lemma extract_tasks_prompts:
  "snd (extract_tasks cfg w state) =
     (if is_actionable state then [user_prompt_of (content state) (today w)] else [])"
  by (simp add: extract_tasks_def Let_def)

lemma analyze_message_content [simp]:
  "content (analyze_message cfg classify state) = content state"
  by (simp add: analyze_message_def split: sum.splits)

lemma ollama_failure_is_actionable:
  "ollama w (classify_prompt message) = Inl e \<Longrightarrow> OllamaClient_is_actionable w message"
  by (simp add: OllamaClient_is_actionable_def OllamaClient_generate_def)

text \<open>
  Claim C1. When the classification call raises, Analyze does not raise: it returns the
  state with \<open>is_actionable\<close> set to true, and Extract then calls the extraction client
  (with the one prompt built from the content).
\<close>

theorem analyze_message_fail_open:
  assumes "classify (content state) = Inl e"
  shows "analyze_message cfg classify state = state\<lparr>is_actionable := True\<rparr> \<and>
         snd (extract_tasks cfg w (analyze_message cfg classify state)) =
           [user_prompt_of (content state) (today w)]"
  using assms by (simp add: analyze_message_def extract_tasks_prompts)

theorem analyze_message_fail_open_witness:
  "failing_classifier (content example_state) = Inl (ConnectionError ''Failed to connect to Ollama'') \<and>
   analyze_message default_settings failing_classifier example_state =
     example_state\<lparr>is_actionable := True\<rparr> \<and>
   snd (extract_tasks default_settings example_world
          (analyze_message default_settings failing_classifier example_state)) =
     [user_prompt_of (content example_state) (today example_world)]"
proof -
  have h: "failing_classifier (content example_state) =
      Inl (ConnectionError ''Failed to connect to Ollama'')"
    by (simp add: failing_classifier_def)
  from h analyze_message_fail_open[of failing_classifier example_state
      "ConnectionError ''Failed to connect to Ollama''" default_settings example_world]
  show ?thesis by blast
qed

text \<open>
  Claim C8. Extract calls the extraction client iff \<open>is_actionable\<close> is true. When it
  is false, Extract returns the empty candidate list and makes no call. With
  classification disabled, Analyze sets \<open>is_actionable\<close> to true and Extract makes
  its call.
\<close>

theorem extraction_invoked_iff_actionable:
  "(snd (extract_tasks cfg w state) \<noteq> [] \<longleftrightarrow> is_actionable state) \<and>
   (\<not> is_actionable state \<longrightarrow>
      extract_tasks cfg w state = (state\<lparr>extracted_tasks := JArr []\<rparr>, [])) \<and>
   (\<not> USE_LOCAL_LLM_FOR_CLASSIFICATION cfg \<longrightarrow>
      analyze_message cfg classify state = state\<lparr>is_actionable := True\<rparr> \<and>
      snd (extract_tasks cfg w (analyze_message cfg classify state)) =
        [user_prompt_of (content state) (today w)])"
  by (simp add: extract_tasks_prompts) (simp add: extract_tasks_def analyze_message_def Let_def)

theorem extraction_invoked_iff_actionable_witness:
  "\<not> is_actionable example_state \<and>
   extract_tasks default_settings example_world example_state =
     (example_state\<lparr>extracted_tasks := JArr []\<rparr>, []) \<and>
   \<not> USE_LOCAL_LLM_FOR_CLASSIFICATION no_classification \<and>
   analyze_message no_classification failing_classifier example_state =
     example_state\<lparr>is_actionable := True\<rparr> \<and>
   snd (extract_tasks no_classification example_world
          (analyze_message no_classification failing_classifier example_state)) =
     [user_prompt_of (content example_state) (today example_world)]"
proof -
  have a: "\<not> is_actionable example_state"
    by (simp add: example_state_def initial_state_def)
  have b: "\<not> USE_LOCAL_LLM_FOR_CLASSIFICATION no_classification"
    by (simp add: no_classification_def)
  from a b
    extraction_invoked_iff_actionable[of default_settings example_world example_state failing_classifier]
    extraction_invoked_iff_actionable[of no_classification example_world example_state failing_classifier]
  show ?thesis by blast
qed

section \<open>Properties of Generate\<close>

lemma stage_loop_eq:
  "stage_loop w state cands created errs db =
     (created @ successes (map (stage_one w state) cands),
      errs @ map FailedToCreateTask (failures (map (stage_one w state) cands)),
      db\<lparr>pending := pending db @ successes (map (stage_one w state) cands)\<rparr>)"
proof (induction cands arbitrary: created errs db)
  case Nil
  then show ?case by simp
next
  case (Cons c cands)
  show ?case
  proof (cases "stage_one w state c")
    case (Inl e)
    then show ?thesis using Cons.IH by simp
  next
    case (Inr t)
    then show ?thesis using Cons.IH by simp
  qed
qed

lemma successes_append: "successes (xs @ ys) = successes xs @ successes ys"
  by (induction xs rule: successes.induct) simp_all

lemma failures_append: "failures (xs @ ys) = failures xs @ failures ys"
  by (induction xs rule: failures.induct) simp_all

lemma generate_tasks_eq:
  "generate_tasks w state db =
     (let rs = map (stage_one w state) (validated_tasks state);
          created = successes rs;
          errs = errors state @ map FailedToCreateTask (failures rs);
          db1 = db\<lparr>pending := pending db @ created\<rparr>
      in case commit_and_refresh w created db1 of
           (db2, None) \<Rightarrow> (state\<lparr>created_tasks := created, errors := errs\<rparr>, db2)
         | (db2, Some e) \<Rightarrow>
             (state\<lparr>created_tasks := [], errors := errs @ [DatabaseCommitFailed e]\<rparr>,
              rollback db2))"
  by (simp add: generate_tasks_def stage_loop_eq Let_def)

text \<open>
  Claim C9. When staging one validated candidate fails, the loop appends its error to
  \<open>errors\<close>, skips the candidate and still stages every other candidate, before and
  after it, in order; the stage then goes on to its commit with exactly those records.
\<close>

theorem generate_tasks_isolates_failure:
  assumes "validated_tasks state = xs @ c # ys" and "stage_one w state c = Inl e"
  shows "(let created = successes (map (stage_one w state) xs) @
                        successes (map (stage_one w state) ys);
              errs = errors state @ map FailedToCreateTask (failures (map (stage_one w state) xs)) @
                     [FailedToCreateTask e] @
                     map FailedToCreateTask (failures (map (stage_one w state) ys));
              db1 = db\<lparr>pending := pending db @ created\<rparr>
          in stage_loop w state (validated_tasks state) [] (errors state) db = (created, errs, db1) \<and>
             generate_tasks w state db =
               (case commit_and_refresh w created db1 of
                  (db2, None) \<Rightarrow> (state\<lparr>created_tasks := created, errors := errs\<rparr>, db2)
                | (db2, Some e') \<Rightarrow>
                    (state\<lparr>created_tasks := [], errors := errs @ [DatabaseCommitFailed e']\<rparr>,
                     rollback db2)))"
  using assms
  by (simp add: generate_tasks_eq stage_loop_eq successes_append failures_append Let_def)

lemma stage_one_examples:
  "source state = ''manual_text'' \<Longrightarrow> message_id state = 1 \<Longrightarrow>
   stage_one example_world state review_pr = Inr (task_of ''Review PR'' 2 90)"
  "source state = ''manual_text'' \<Longrightarrow> message_id state = 1 \<Longrightarrow>
   stage_one example_world state send_report_1 = Inr (task_of ''Send report'' 3 90)"
  "stage_one example_world state out_of_range =
     Inl (ValueError ''Confidence score must be between 0 and 100'')"
  by (simp_all add: stage_one_def make_task_def resolve_due_date_def review_pr_def
      send_report_1_def out_of_range_def example_world_def
      validate_status_def validate_priority_def
      validate_confidence_score_def py_lt_def py_gt_def task_of_def show_int_def)

theorem generate_tasks_isolates_failure_witness:
  "validated_tasks one_bad_one_good = [] @ out_of_range # [review_pr] \<and>
   stage_one example_world one_bad_one_good out_of_range =
     Inl (ValueError ''Confidence score must be between 0 and 100'') \<and>
   stage_loop example_world one_bad_one_good (validated_tasks one_bad_one_good) []
       (errors one_bad_one_good) empty_session =
     ([task_of ''Review PR'' 2 90],
      [FailedToCreateTask (ValueError ''Confidence score must be between 0 and 100'')],
      empty_session\<lparr>pending := [task_of ''Review PR'' 2 90]\<rparr>) \<and>
   generate_tasks example_world one_bad_one_good empty_session =
     (one_bad_one_good
        \<lparr>created_tasks := [task_of ''Review PR'' 2 90],
         errors := [FailedToCreateTask (ValueError ''Confidence score must be between 0 and 100'')]\<rparr>,
      \<lparr>pending = [], stored = [task_of ''Review PR'' 2 90]\<rparr>)"
proof -
  have st: "source one_bad_one_good = ''manual_text''" "message_id one_bad_one_good = 1"
    "errors one_bad_one_good = []"
    by (simp_all add: one_bad_one_good_def example_state_def initial_state_def)
  have v: "validated_tasks one_bad_one_good = [] @ out_of_range # [review_pr]"
    by (simp add: one_bad_one_good_def)
  have c: "commit_and_refresh example_world [task_of ''Review PR'' 2 90]
             (empty_session\<lparr>pending := [task_of ''Review PR'' 2 90]\<rparr>) =
           (\<lparr>pending = [], stored = [task_of ''Review PR'' 2 90]\<rparr>, None)"
    by (simp add: commit_and_refresh_def example_world_def empty_session_def)
  from generate_tasks_isolates_failure[OF v stage_one_examples(3), of empty_session]
  show ?thesis
    using v c by (simp add: stage_one_examples st Let_def empty_session_def)
qed

text \<open>
  Claim C2. When the commit of the batch raises, the stage returns no created task,
  appends the commit error to \<open>errors\<close> (after the errors of the candidates), and the
  session is rolled back: nothing is pending and the stored rows are unchanged.
\<close>

theorem generate_tasks_commit_failure:
  assumes "commit_raises w (pending db @ successes (map (stage_one w state) (validated_tasks state))) = Some e"
  shows "generate_tasks w state db =
           (state\<lparr>created_tasks := [],
                  errors := errors state @
                    map FailedToCreateTask (failures (map (stage_one w state) (validated_tasks state))) @
                    [DatabaseCommitFailed e]\<rparr>,
            db\<lparr>pending := []\<rparr>)"
  using assms by (simp add: generate_tasks_eq commit_and_refresh_def rollback_def Let_def)

lemma stage_one_commit_fails_world:
  "stage_one commit_fails_world state c = stage_one example_world state c"
  by (simp add: stage_one_def make_task_def resolve_due_date_def commit_fails_world_def
      cong: if_cong sum.case_cong option.case_cong json.case_cong)

theorem generate_tasks_commit_failure_witness:
  "commit_raises commit_fails_world
     (pending empty_session @
      successes (map (stage_one commit_fails_world two_good) (validated_tasks two_good))) =
     Some (ServiceError ''database is locked'') \<and>
   successes (map (stage_one commit_fails_world two_good) (validated_tasks two_good)) =
     [task_of ''Send report'' 3 90, task_of ''Review PR'' 2 90] \<and>
   generate_tasks commit_fails_world two_good empty_session =
     (two_good\<lparr>created_tasks := [],
               errors := [DatabaseCommitFailed (ServiceError ''database is locked'')]\<rparr>,
      \<lparr>pending = [], stored = []\<rparr>)"
proof -
  have st: "source two_good = ''manual_text''" "message_id two_good = 1" "errors two_good = []"
    "validated_tasks two_good = [send_report_1, review_pr]"
    by (simp_all add: two_good_def example_state_def initial_state_def)
  have h: "commit_raises commit_fails_world
     (pending empty_session @
      successes (map (stage_one commit_fails_world two_good) (validated_tasks two_good))) =
     Some (ServiceError ''database is locked'')"
    by (simp add: commit_fails_world_def)
  from generate_tasks_commit_failure[OF h] h
  show ?thesis
    by (simp add: st stage_one_commit_fails_world stage_one_examples empty_session_def)
qed

section \<open>Truncation of titles\<close>

lemma strip_no_space:
  assumes "s \<noteq> []" "\<not> is_space (hd s)" "\<not> is_space (last s)"
  shows "strip s = s"
proof -
  have "dropWhile is_space s = s" using assms by (cases s) simp_all
  moreover have "dropWhile is_space (rev s) = rev s"
    using assms by (cases "rev s") (simp_all add: hd_rev[symmetric])
  ultimately show ?thesis by (simp add: strip_def)
qed

lemma long_titles:
  "strip long_title_b = long_title_b" "strip long_title_c = long_title_c"
  "lower long_title_b = long_title_b" "lower long_title_c = long_title_c"
  "long_title_b \<noteq> long_title_c" "long_title_c \<noteq> long_title_b" "long_title_b \<noteq> []" "long_title_c \<noteq> []"
  "take 500 long_title_b = replicate 500 CHR ''a''"
  "take 500 long_title_c = replicate 500 CHR ''a''"
  by (simp_all add: long_title_b_def long_title_c_def strip_no_space is_space_def hd_append
      lower_def lower_char_def)

lemma titled_facts:
  "well_typed (titled t)" "confidence_of (titled t) = 90" "trimmed_title (titled t) = strip t"
  by (simp_all add: titled_def well_typed_def confidence_of_def trimmed_title_def)

text \<open>
  Claim C10. There are two candidates whose titles agree on the first 500 characters and
  differ after them: the validator, which compares whole titles, keeps both, and Generate,
  which truncates to 500 characters, stores two records with the same title.
\<close>

theorem truncation_after_dedup:
  "long_title_b \<noteq> long_title_c \<and> take 500 long_title_b = take 500 long_title_c \<and>
   validate_tasks default_settings
     (example_state\<lparr>extracted_tasks := JArr [titled long_title_b, titled long_title_c]\<rparr>) =
     Inr (example_state\<lparr>extracted_tasks := JArr [titled long_title_b, titled long_title_c],
                         validated_tasks := [titled long_title_b, titled long_title_c]\<rparr>) \<and>
   generate_tasks example_world
     (example_state\<lparr>extracted_tasks := JArr [titled long_title_b, titled long_title_c],
                    validated_tasks := [titled long_title_b, titled long_title_c]\<rparr>)
     empty_session =
     (example_state\<lparr>extracted_tasks := JArr [titled long_title_b, titled long_title_c],
                    validated_tasks := [titled long_title_b, titled long_title_c],
                    created_tasks := [task_of (replicate 500 CHR ''a'') 3 90,
                                      task_of (replicate 500 CHR ''a'') 3 90]\<rparr>,
      \<lparr>pending = [],
       stored = [task_of (replicate 500 CHR ''a'') 3 90, task_of (replicate 500 CHR ''a'') 3 90]\<rparr>)"
proof -
  have v: "validate_loop 70 [titled long_title_b, titled long_title_c] [] {} =
             Inr [titled long_title_b, titled long_title_c]"
    using validate_loop_vfilter[of "[titled long_title_b, titled long_title_c]" 70 "[]" "{}"]
    by (simp add: titled_facts passes_def title_key_def long_titles del: validate_loop.simps)
  have s: "stage_one example_world st (titled t) = Inr (task_of (take 500 t) 3 90)"
    if "source st = ''manual_text''" "message_id st = 1" for st t
    using that
    by (simp add: stage_one_def make_task_def resolve_due_date_def titled_def example_world_def
      validate_status_def validate_priority_def validate_confidence_score_def py_lt_def py_gt_def
      task_of_def show_int_def)
  have g: "generate_tasks example_world
     (example_state\<lparr>extracted_tasks := JArr [titled long_title_b, titled long_title_c],
                    validated_tasks := [titled long_title_b, titled long_title_c]\<rparr>)
     empty_session =
     (example_state\<lparr>extracted_tasks := JArr [titled long_title_b, titled long_title_c],
                    validated_tasks := [titled long_title_b, titled long_title_c],
                    created_tasks := [task_of (replicate 500 CHR ''a'') 3 90,
                                      task_of (replicate 500 CHR ''a'') 3 90]\<rparr>,
      \<lparr>pending = [],
       stored = [task_of (replicate 500 CHR ''a'') 3 90, task_of (replicate 500 CHR ''a'') 3 90]\<rparr>)"
    by (simp add: generate_tasks_eq s long_titles example_state_def initial_state_def Let_def
        commit_and_refresh_def empty_session_def)
       (simp add: example_world_def)
  from v g long_titles show ?thesis
    by (simp add: validate_tasks_def default_settings_def)
qed

section \<open>Properties of the date resolver\<close>

lemma py_in_sublist: "py_in sub s \<longleftrightarrow> sublist sub s"
  unfolding py_in_def
  by (induction s) (auto simp: sublist_Cons_right)

lemma match_in_days_sound:
  assumes "match_in_days s = Some ds"
  shows "\<exists>post. s = ''in '' @ ds @ '' day'' @ post \<and> ds \<noteq> [] \<and> (\<forall>c\<in>set ds. is_digit c)"
proof -
  define r where "r = drop 3 s"
  from assms have p: "prefix ''in '' s" and d: "ds \<noteq> []"
    and q: "prefix '' day'' (dropWhile is_digit r)" and ds: "ds = takeWhile is_digit r"
    by (auto simp: match_in_days_def Let_def r_def split: if_splits)
  from p obtain r' where "s = ''in '' @ r'" by (auto simp: prefix_def)
  then have s: "s = ''in '' @ r" by (simp add: r_def)
  from q obtain post where "dropWhile is_digit r = '' day'' @ post" by (auto simp: prefix_def)
  then have "r = ds @ '' day'' @ post"
    using takeWhile_dropWhile_id[of is_digit r] by (simp add: ds)
  moreover have "\<forall>c\<in>set ds. is_digit c"
    by (auto simp: ds dest: set_takeWhileD)
  ultimately show ?thesis using s d by blast
qed

lemma search_in_days_sound:
  "search_in_days s = Some ds \<Longrightarrow>
   \<exists>pre post. s = pre @ ''in '' @ ds @ '' day'' @ post \<and> ds \<noteq> [] \<and> (\<forall>c\<in>set ds. is_digit c)"
proof (induction s)
  case Nil
  then show ?case by simp
next
  case (Cons c cs)
  show ?case
  proof (cases "match_in_days (c # cs)")
    case (Some m)
    with Cons.prems have "m = ds" by simp
    with Some match_in_days_sound[of "c # cs" ds] show ?thesis
      by (metis append_Nil)
  next
    case None
    with Cons.prems have "search_in_days cs = Some ds" by simp
    from Cons.IH[OF this] obtain pre post where
      "cs = pre @ ''in '' @ ds @ '' day'' @ post" "ds \<noteq> []" "\<forall>c\<in>set ds. is_digit c"
      by blast
    then have "c # cs = (c # pre) @ ''in '' @ ds @ '' day'' @ post" by simp
    then show ?thesis
      using \<open>ds \<noteq> []\<close> \<open>\<forall>c\<in>set ds. is_digit c\<close> by blast
  qed
qed

lemma add_days_in_range:
  "1 \<le> ordinal t \<Longrightarrow> 0 \<le> n \<Longrightarrow> ordinal t + n \<le> max_ordinal \<Longrightarrow>
   add_days t n = Inr (plus_days t n)"
  by (auto simp: add_days_def plus_days_def max_ordinal_def)

text \<open>
  Where the digits of an \<open>in N days\<close> match are at most 4300 and every date involved is
  within the range of \<^verbatim>\<open>datetime\<close>, the relative parser returns the date of the first
  matching rule, and Generate gives it to a non-empty string that \<^verbatim>\<open>fromisoformat\<close>
  rejects.
\<close>

lemma parse_relative_date_in_range:
  assumes "1 \<le> ordinal t" and "ordinal t + 30 \<le> max_ordinal"
    and "\<forall>ds. search_in_days (strip (lower s)) = Some ds \<longrightarrow>
           length ds \<le> 4300 \<and> ordinal t + int (int_of_digits ds) \<le> max_ordinal"
  shows "parse_relative_date t (JStr s) = Inr (relative_date t s) \<and>
         (s \<noteq> [] \<and> fromisoformat w s = None \<and> now w = t \<longrightarrow>
            resolve_due_date w (with_due_date s) = Inr (Some (relative_date t s)))"
proof -
  have p: "parse_relative_date t (JStr s) = Inr (relative_date t s)"
    using assms
    by (auto simp: relative_date_def py_in_sublist Let_def add_days_in_range py_int_def
        split: option.splits)
  then show ?thesis
    by (auto simp: resolve_due_date_def with_due_date_def)
qed

lemma in_3_days:
  "strip (lower ''in 3 days'') = ''in 3 days''" "search_in_days ''in 3 days'' = Some ''3''"
  "int_of_digits ''3'' = 3"
  "\<not> sublist ''tomorrow'' ''in 3 days''" "\<not> sublist ''next week'' ''in 3 days''"
  "\<not> sublist ''eod'' ''in 3 days''" "\<not> sublist ''end of day'' ''in 3 days''"
  "\<not> sublist ''next month'' ''in 3 days''"
  by (simp_all add: strip_def is_space_def lower_def lower_char_def match_in_days_def is_digit_def
      int_of_digits_def digit_value_def py_in_sublist[symmetric] py_in_def)

lemma parse_relative_date_in_3_days:
  "parse_relative_date example_now (JStr ''in 3 days'') = Inr (example_now\<lparr>ordinal := 739568\<rparr>) \<and>
   resolve_due_date example_world (with_due_date ''in 3 days'') =
     Inr (Some (example_now\<lparr>ordinal := 739568\<rparr>))"
proof -
  have a: "1 \<le> ordinal example_now" "ordinal example_now + 30 \<le> max_ordinal"
    by (simp_all add: example_now_def max_ordinal_def)
  have b: "\<forall>ds. search_in_days (strip (lower ''in 3 days'')) = Some ds \<longrightarrow>
             length ds \<le> 4300 \<and> ordinal example_now + int (int_of_digits ds) \<le> max_ordinal"
    by (auto simp: in_3_days example_now_def max_ordinal_def simp del: search_in_days.simps)
  have r: "relative_date example_now ''in 3 days'' = example_now\<lparr>ordinal := 739568\<rparr>"
    by (simp add: relative_date_def in_3_days plus_days_def example_now_def del: search_in_days.simps)
  have w: "fromisoformat example_world ''in 3 days'' = None" "now example_world = example_now"
    by (simp_all add: example_world_def)
  from parse_relative_date_in_range[OF a(1) a(2) b, of example_world] r w
  show ?thesis by simp
qed

lemma in_4000000_days:
  "strip (lower ''in 4000000 days'') = ''in 4000000 days''"
  "search_in_days ''in 4000000 days'' = Some ''4000000''"
  "py_int ''4000000'' = Inr 4000000"
  "\<not> py_in ''tomorrow'' ''in 4000000 days''" "\<not> py_in ''next week'' ''in 4000000 days''"
  "\<not> py_in ''eod'' ''in 4000000 days''" "\<not> py_in ''end of day'' ''in 4000000 days''"
  "\<not> py_in ''next month'' ''in 4000000 days''"
  by (simp_all add: strip_def is_space_def lower_def lower_char_def match_in_days_def is_digit_def
      py_int_def int_of_digits_def digit_value_def py_in_def)

text \<open>
  Claim C7 at the due date \<^verbatim>\<open>"in 4000000 days"\<close> on 2025-11-10: the expression fails
  ISO parsing, matches the \<open>in N days\<close> rule, and the sum is past 9999-12-31, so the
  relative parser raises \<^verbatim>\<open>OverflowError\<close> instead of returning a date; in Generate the
  inner \<^verbatim>\<open>except\<close> catches it and the candidate is not created.
\<close>

theorem parse_relative_date_overflow:
  "fromisoformat example_world ''in 4000000 days'' = None \<and>
   parse_relative_date example_now (JStr ''in 4000000 days'') =
     Inl (OverflowError ''date value out of range'') \<and>
   stage_one example_world example_state (with_due_date ''in 4000000 days'') =
     Inl (OverflowError ''date value out of range'')"
proof -
  have p: "parse_relative_date example_now (JStr ''in 4000000 days'') =
     Inl (OverflowError ''date value out of range'')"
    by (simp add: in_4000000_days add_days_def example_now_def max_ordinal_def
        del: search_in_days.simps)
  have "resolve_due_date example_world (with_due_date ''in 4000000 days'') =
      Inl (OverflowError ''date value out of range'')"
    using p by (simp add: resolve_due_date_def with_due_date_def example_world_def)
  then show ?thesis using p by (simp add: stage_one_def make_task_def example_world_def)
qed

lemma many_digits_facts:
  "strip (lower many_digits) = many_digits"
  "search_in_days many_digits = Some (replicate 4301 CHR ''1'')"
  "\<not> py_in ''tomorrow'' many_digits" "\<not> py_in ''next week'' many_digits"
  "\<not> py_in ''eod'' many_digits" "\<not> py_in ''end of day'' many_digits"
  "\<not> py_in ''next month'' many_digits"
proof -
  have l: "lower many_digits = many_digits"
    by (simp add: many_digits_def lower_def lower_char_def)
  have "strip many_digits = many_digits"
    by (rule strip_no_space) (simp_all add: many_digits_def is_space_def)
  with l show "strip (lower many_digits) = many_digits" by simp
  have d: "is_digit CHR ''1''" "\<not> is_digit CHR '' ''" by (simp_all add: is_digit_def)
  have tw: "takeWhile is_digit (replicate n CHR ''1'' @ '' days'') = replicate n CHR ''1''" for n
    by (induction n) (simp_all add: d)
  have dw: "dropWhile is_digit (replicate n CHR ''1'' @ '' days'') = '' days''" for n
    by (induction n) (simp_all add: d)
  show "search_in_days many_digits = Some (replicate 4301 CHR ''1'')"
    by (simp add: many_digits_def match_in_days_def Let_def tw dw)
  have s: "set many_digits = set ''in 1days''"
    by (auto simp: many_digits_def)
  have n: "\<not> sublist p many_digits" if "\<not> set p \<subseteq> set ''in 1days''" for p
    using that set_mono_sublist[of p many_digits] s by blast
  show "\<not> py_in ''tomorrow'' many_digits" "\<not> py_in ''next week'' many_digits"
  "\<not> py_in ''eod'' many_digits" "\<not> py_in ''end of day'' many_digits"
  "\<not> py_in ''next month'' many_digits"
    unfolding py_in_sublist by (rule n, simp)+
qed

text \<open>
  A run of 4301 digits: \<^verbatim>\<open>int\<close> refuses it, and the relative parser raises
  \<^verbatim>\<open>ValueError\<close>.
\<close>

lemma parse_relative_date_digit_limit:
  "parse_relative_date t (JStr many_digits) = Inl (ValueError ''Exceeds the limit (4300 digits)'')"
  by (simp add: many_digits_facts py_int_def del: search_in_days.simps)

section \<open>Defaults of an absent confidence\<close>

text \<open>
  Claim C6 at threshold 0 and a candidate without \<open>confidence\<close>: the validator compares
  it as 0 and keeps it, and Generate stores it with confidence score 50.
\<close>

theorem absent_confidence_stored_as_50:
  "confidence_of no_confidence = 0 \<and>
   validate_tasks zero_threshold (example_state\<lparr>extracted_tasks := JArr [no_confidence]\<rparr>) =
     Inr (example_state\<lparr>extracted_tasks := JArr [no_confidence], validated_tasks := [no_confidence]\<rparr>) \<and>
   created_tasks (fst (generate_tasks example_world
       (example_state\<lparr>extracted_tasks := JArr [no_confidence], validated_tasks := [no_confidence]\<rparr>)
       empty_session)) = [task_of ''Call Bob'' 3 50]"
proof -
  have a: "confidence_of no_confidence = 0"
    by (simp add: confidence_of_def no_confidence_def)
  have s: "strip ''Call Bob'' = ''Call Bob''"
    by (simp add: strip_def is_space_def)
  have v: "validate_loop 0 [no_confidence] [] {} = Inr [no_confidence]"
    by (simp add: no_confidence_def py_lt_def s)
  have g: "stage_one example_world
       (example_state\<lparr>extracted_tasks := JArr [no_confidence], validated_tasks := [no_confidence]\<rparr>)
       no_confidence = Inr (task_of ''Call Bob'' 3 50)"
    by (simp add: stage_one_def make_task_def resolve_due_date_def no_confidence_def
      example_world_def example_state_def initial_state_def
      validate_status_def validate_priority_def validate_confidence_score_def py_lt_def py_gt_def
      task_of_def show_int_def)
  show ?thesis using a v g
    by (simp add: validate_tasks_def zero_threshold_def default_settings_def
        generate_tasks_eq Let_def commit_and_refresh_def)
       (simp add: example_world_def)
qed

section \<open>Exceptions that leave the graph\<close>

lemma normalise_null_title_reply: "normalise_response null_title_reply = null_title_reply"
  by (simp add: normalise_response_def py_in_def null_title_reply_def dq_def)

text \<open>
  Claim C4 at the reply \<^verbatim>\<open>[{"title": null, "confidence": 90}]\<close>: the validator raises
  \<^verbatim>\<open>AttributeError\<close> at \<^verbatim>\<open>.strip()\<close>, nothing catches it, and it leaves
  \<open>infer_tasks_from_text\<close>.
\<close>

theorem validate_tasks_raises_on_null_title:
  "validate_tasks default_settings (example_state\<lparr>extracted_tasks := JArr [null_title]\<rparr>) =
     Inl (AttributeError ''strip'') \<and>
   infer_tasks_from_text default_settings null_title_world
     ''Please send the report'' ''manual_text'' 1 empty_session = Inl (AttributeError ''strip'')"
proof -
  have v: "validate_loop 70 [null_title] [] {} = Inl (AttributeError ''strip'')"
    by (simp add: null_title_def py_lt_def)
  have a: "is_actionable (analyze_message default_settings
       (\<lambda>m. Inr (OllamaClient_is_actionable null_title_world m)) st)" for st
    by (simp add: analyze_message_def OllamaClient_is_actionable_def OllamaClient_generate_def
        null_title_world_def example_world_def)
  have g: "ClaudeClient_generate_json default_settings null_title_world p = Inr (JArr [null_title])" for p
    by (simp add: ClaudeClient_generate_json_def ClaudeClient_generate_def ClaudeClient_attempt_def
        default_settings_def null_title_world_def normalise_null_title_reply)
  have e: "extracted_tasks (fst (extract_tasks default_settings null_title_world st)) = JArr [null_title]"
    if "is_actionable st" for st
    using that by (simp add: extract_tasks_def g Let_def null_title_def)
  define s1 where "s1 = analyze_message default_settings
       (\<lambda>m. Inr (OllamaClient_is_actionable null_title_world m))
       (initial_state ''Please send the report'' ''manual_text'' 1)"
  obtain s2 ps where ex: "extract_tasks default_settings null_title_world s1 = (s2, ps)"
    by (cases "extract_tasks default_settings null_title_world s1")
  have "extracted_tasks s2 = JArr [null_title]"
    using e[of s1] a ex by (simp add: s1_def)
  then have "validate_tasks default_settings s2 = Inl (AttributeError ''strip'')"
    using v by (simp add: validate_tasks_def default_settings_def)
  then have "run_graph default_settings null_title_world
     (initial_state ''Please send the report'' ''manual_text'' 1) empty_session =
     Inl (AttributeError ''strip'')"
    using ex by (simp add: run_graph_def s1_def[symmetric])
  with v show ?thesis
    by (simp add: infer_tasks_from_text_def validate_tasks_def default_settings_def)
qed

section \<open>Properties of the extraction payload\<close>

lemma extract_tasks_parsed:
  assumes "is_actionable state"
    and "ClaudeClient_generate cfg w (user_prompt_of (content state) (today w)) = Inr text"
    and "json_loads w (normalise_response text) = Some v"
  shows "fst (extract_tasks cfg w state) =
     (case py_iter (tasks_of_response v) of
        Inl e \<Rightarrow> extract_failed state e
      | Inr elements \<Rightarrow>
          (case get_each ''confidence'' (JNum 50) elements of
             Inl e \<Rightarrow> extract_failed state e
           | Inr scores \<Rightarrow>
               state\<lparr>extracted_tasks := tasks_of_response v, confidence_scores := scores\<rparr>))"
  using assms by (simp add: extract_tasks_def ClaudeClient_generate_json_def Let_def)

text \<open>
  The \<^verbatim>\<open>except\<close> branch: a payload that \<^verbatim>\<open>json.loads\<close> rejects is recorded in
  \<open>errors\<close>, and the candidates are the empty list.
\<close>

lemma extract_tasks_unparseable:
  assumes "is_actionable state"
    and "ClaudeClient_generate cfg w (user_prompt_of (content state) (today w)) = Inr text"
    and "json_loads w (normalise_response text) = None"
  shows "fst (extract_tasks cfg w state) =
           state\<lparr>extracted_tasks := JArr [],
                  errors := errors state @
                    [TaskExtractionFailed (ValueError ''Claude did not return valid JSON'')]\<rparr>"
  using assms
  by (simp add: extract_tasks_def ClaudeClient_generate_json_def Let_def extract_failed_def)

lemma no_tasks_world_facts:
  "ClaudeClient_generate default_settings no_tasks_world p = Inr no_tasks_reply"
  "json_loads no_tasks_world (normalise_response no_tasks_reply) = Some no_tasks_payload"
  "\<not> recognised no_tasks_payload"
  "is_actionable actionable_state" "errors actionable_state = []"
  by (simp_all add: ClaudeClient_generate_def ClaudeClient_attempt_def default_settings_def
      no_tasks_world_def normalise_response_def py_in_def no_tasks_reply_def dq_def
      no_tasks_payload_def actionable_state_def example_state_def initial_state_def)

lemma prose_world_facts:
  "ClaudeClient_generate default_settings prose_world p = Inr ''I found no tasks.''"
  "json_loads prose_world s = None"
  by (simp_all add: ClaudeClient_generate_def ClaudeClient_attempt_def default_settings_def
      prose_world_def)

lemma extract_tasks_prose:
  "fst (extract_tasks default_settings prose_world actionable_state) =
     actionable_state\<lparr>extracted_tasks := JArr [],
       errors := [TaskExtractionFailed (ValueError ''Claude did not return valid JSON'')]\<rparr>"
  using extract_tasks_unparseable[OF no_tasks_world_facts(4) prose_world_facts(1) prose_world_facts(2)]
  by (simp add: no_tasks_world_facts)

text \<open>
  Claim C5 at the reply \<^verbatim>\<open>{"message": "no tasks"}\<close>, a payload that parses and is
  neither a list nor an object with \<open>tasks\<close>: the stage takes its \<^verbatim>\<open>else\<close> branch,
  sets the candidates to the empty list and leaves \<open>errors\<close> empty, where the claim
  has a diagnostic recorded.
\<close>

theorem extract_tasks_unrecognised_shape:
  "json_loads no_tasks_world (normalise_response no_tasks_reply) = Some no_tasks_payload \<and>
   \<not> recognised no_tasks_payload \<and>
   fst (extract_tasks default_settings no_tasks_world actionable_state) =
     actionable_state\<lparr>extracted_tasks := JArr [], confidence_scores := []\<rparr> \<and>
   errors (fst (extract_tasks default_settings no_tasks_world actionable_state)) = []"
  using extract_tasks_parsed[OF no_tasks_world_facts(4) no_tasks_world_facts(1)
      no_tasks_world_facts(2)]
  by (simp add: no_tasks_world_facts) (simp add: no_tasks_payload_def no_tasks_world_facts)

section \<open>Further checks from the specification\<close>

text \<open>The boundary of the threshold, for a single candidate with a title.\<close>

lemma validate_threshold_boundary:
  assumes "well_typed c" and "trimmed_title c \<noteq> []"
  shows "confidence_of c = of_int thr \<Longrightarrow> validate_loop thr [c] [] {} = Inr [c]"
    and "confidence_of c = of_int thr - 1 \<Longrightarrow> validate_loop thr [c] [] {} = Inr []"
  using assms validate_loop_vfilter[of "[c]" thr "[]" "{}"]
  by (simp_all add: passes_def del: validate_loop.simps)

text \<open>Relative dates on 2025-11-10, 09:30:15.\<close>

lemma relative_date_examples:
  "parse_relative_date example_now (JStr ''tomorrow'') = Inr (example_now\<lparr>ordinal := 739566\<rparr>)"
  "parse_relative_date example_now (JStr ''whenever'') = Inr (example_now\<lparr>ordinal := 739566\<rparr>)"
  "parse_relative_date example_now (JStr ''EOD'') =
     Inr (example_now\<lparr>hour := 17, minute := 0, second := 0, microsecond := 0\<rparr>)"
  by (simp_all add: strip_def is_space_def lower_def lower_char_def py_in_def match_in_days_def
      add_days_def example_now_def max_ordinal_def)

end
